theory Spec2Isabelle
  imports Complex_Main "HOL-Library.AList"
begin

section \<open>JavaScript values used by the billing connector\<close>

text \<open>
  The values that reach the arithmetic of the code. A Number is an IEEE 754 binary64
  value: \<open>Num r\<close> for the finite double whose value is the real \<open>r\<close>, the two
  infinities and \<open>NaN\<close>. The two zeros are one value here; the code never divides and
  never prints a balance, so it cannot tell them apart. \<open>Str\<close> stands for a string that is
  not the text of a number: the only strings the code can produce are a balance
  concatenated with the text of a function or of an object. \<open>Undefined\<close> is what reading
  a missing property gives, and \<open>Obj\<close> is an object or function that is not a Number,
  which is what reading a name inherited from \<open>Object.prototype\<close> gives.
\<close>

datatype jsval = Num real | PosInf | NegInf | NaN | Str | Undefined | Obj

text \<open>
  Rounding of an exact result to binary64, to nearest with ties to even. \<open>exponent x\<close>
  is the binary exponent of \<open>x\<close>, not below -1022 (the subnormal range shares the
  exponent -1022) and found by a search that starts at 0 and stops at 1024; the result is
  the multiple of \<open>2 ^ (exponent x - 52)\<close> nearest to \<open>x\<close>, and an infinity when that
  multiple reaches \<open>2 ^ 1024\<close>.
\<close>

definition round_half_even :: "real \<Rightarrow> int" where
  "round_half_even y =
     (if y - of_int \<lfloor>y\<rfloor> < 1 / 2 then \<lfloor>y\<rfloor>
      else if 1 / 2 < y - of_int \<lfloor>y\<rfloor> then \<lfloor>y\<rfloor> + 1
      else if even \<lfloor>y\<rfloor> then \<lfloor>y\<rfloor> else \<lfloor>y\<rfloor> + 1)"

function exp_up :: "real \<Rightarrow> int \<Rightarrow> int" where
  "exp_up a e = (if 1024 \<le> e \<or> a < 2 powi (e + 1) then e else exp_up a (e + 1))"
  by pat_completeness auto
termination
  by (relation "measure (\<lambda>(a, e). nat (1024 - e))") auto

function exp_down :: "real \<Rightarrow> int \<Rightarrow> int" where
  "exp_down a e = (if e \<le> - 1022 \<or> 2 powi e \<le> a then e else exp_down a (e - 1))"
  by pat_completeness auto
termination
  by (relation "measure (\<lambda>(a, e). nat (e + 1022))") auto

definition exponent :: "real \<Rightarrow> int" where
  "exponent x = (if 1 \<le> \<bar>x\<bar> then exp_up \<bar>x\<bar> 0 else exp_down \<bar>x\<bar> (- 1))"

definition round64 :: "real \<Rightarrow> jsval" where
  "round64 x =
     (if x = 0 then Num 0
      else (let q = exponent x - 52;
                r = of_int (round_half_even (x / 2 powi q)) * 2 powi q
            in if 2 powi 1024 \<le> r then PosInf
               else if r \<le> - (2 powi 1024) then NegInf
               else Num r))"

text \<open>
  \<open>ToNumber\<close>: \<open>undefined\<close> is \<open>NaN\<close>; an object or function is first turned into its
  text, and that text, like every \<open>Str\<close>, is not the text of a number, so it is \<open>NaN\<close>.
\<close>

fun ToNumber :: "jsval \<Rightarrow> jsval" where
  "ToNumber (Num a) = Num a"
| "ToNumber PosInf = PosInf"
| "ToNumber NegInf = NegInf"
| "ToNumber _ = NaN"

text \<open>Addition, subtraction and comparison of Numbers.\<close>

fun num_add :: "jsval \<Rightarrow> jsval \<Rightarrow> jsval" where
  "num_add (Num a) (Num b) = round64 (a + b)"
| "num_add (Num a) PosInf = PosInf"
| "num_add (Num a) NegInf = NegInf"
| "num_add PosInf (Num b) = PosInf"
| "num_add PosInf PosInf = PosInf"
| "num_add NegInf (Num b) = NegInf"
| "num_add NegInf NegInf = NegInf"
| "num_add _ _ = NaN"

fun num_sub :: "jsval \<Rightarrow> jsval \<Rightarrow> jsval" where
  "num_sub (Num a) (Num b) = round64 (a - b)"
| "num_sub (Num a) PosInf = NegInf"
| "num_sub (Num a) NegInf = PosInf"
| "num_sub PosInf (Num b) = PosInf"
| "num_sub PosInf NegInf = PosInf"
| "num_sub NegInf (Num b) = NegInf"
| "num_sub NegInf PosInf = NegInf"
| "num_sub _ _ = NaN"

fun num_lt :: "jsval \<Rightarrow> jsval \<Rightarrow> bool" where
  "num_lt (Num a) (Num b) = (a < b)"
| "num_lt (Num a) PosInf = True"
| "num_lt NegInf (Num b) = True"
| "num_lt NegInf PosInf = True"
| "num_lt _ _ = False"

text \<open>
  The operators of the code. \<open>a + b\<close> concatenates when either operand is a string or an
  object and adds Numbers otherwise; \<open>a - b\<close> and \<open>a++\<close> always work on Numbers. \<open>a < b\<close>
  compares Numbers unless both operands are strings; the one comparison of the code has a
  difference, so a Number, on its left.
\<close>

definition js_add :: "jsval \<Rightarrow> jsval \<Rightarrow> jsval" where
  "js_add a b =
     (if a = Str \<or> a = Obj \<or> b = Str \<or> b = Obj then Str else num_add (ToNumber a) (ToNumber b))"

definition js_sub :: "jsval \<Rightarrow> jsval \<Rightarrow> jsval" where
  "js_sub a b = num_sub (ToNumber a) (ToNumber b)"

definition js_inc :: "jsval \<Rightarrow> jsval" where
  "js_inc a = num_add (ToNumber a) (Num 1)"

definition js_lt :: "jsval \<Rightarrow> jsval \<Rightarrow> bool" where
  "js_lt a b = num_lt (ToNumber a) (ToNumber b)"

text \<open>
  The names every ordinary object inherits from \<open>Object.prototype\<close>. Reading one of them
  from an object that has no property of its own by that name gives a function (for
  \<open>__proto__\<close>, the prototype object itself): \<open>Obj\<close>.
\<close>

definition Object_prototype :: "string list" where
  "Object_prototype =
     [''constructor'', ''__defineGetter__'', ''__defineSetter__'', ''hasOwnProperty'',
      ''__lookupGetter__'', ''__lookupSetter__'', ''isPrototypeOf'', ''propertyIsEnumerable'',
      ''toString'', ''valueOf'', ''__proto__'', ''toLocaleString'']"

definition inherited :: "string \<Rightarrow> bool" where
  "inherited k = (k \<in> set Object_prototype)"

text \<open>Exceptions the code can raise.\<close>

datatype js_error = TypeError | Error

section \<open>billing-account.js: BillingAccount\<close>

text \<open>
  The fields of the class. \<open>apiKeys\<close> and \<open>origins\<close> have no initialiser, so they are
  \<open>undefined\<close> (\<open>None\<close>) until the server sends them. The field \<open>id\<close> is named
  \<open>account_id\<close> here, \<open>id\<close> being the identity function of HOL.
\<close>

record BillingAccount =
  account_id :: string
  apiKeys :: "string list option"
  origins :: "string list option"
  balance :: jsval
  chargedBalance :: jsval

text \<open>\<open>new BillingAccount(id)\<close>: balance and chargedBalance start at 0.\<close>

definition new_BillingAccount :: "string \<Rightarrow> BillingAccount" where
  "new_BillingAccount i =
     \<lparr>account_id = i, apiKeys = None, origins = None, balance = Num 0, chargedBalance = Num 0\<rparr>"

text \<open>\<open>get currentBalance() { return this.balance - this.chargedBalance }\<close>\<close>

definition currentBalance :: "BillingAccount \<Rightarrow> jsval" where
  "currentBalance a = js_sub (balance a) (chargedBalance a)"

text \<open>
  \<open>tryCharge(amount)\<close>: the returned boolean and the account after the call.
  \<^verbatim>\<open>
    if (this.currentBalance < amount) return false
    this.chargedBalance += amount
    return true
  \<close>
\<close>

definition tryCharge :: "jsval \<Rightarrow> BillingAccount \<Rightarrow> bool \<times> BillingAccount" where
  "tryCharge amount a =
     (if js_lt (currentBalance a) amount then (False, a)
      else (True, a\<lparr>chargedBalance := js_add (chargedBalance a) amount\<rparr>))"



section \<open>origin-matcher.js: OriginMatcher\<close>

text \<open>String primitives of JavaScript that the code calls.\<close>

definition startsWith :: "string \<Rightarrow> string \<Rightarrow> bool" where
  "startsWith s p = (take (length p) s = p)"

definition endsWith :: "string \<Rightarrow> string \<Rightarrow> bool" where
  "endsWith s p = (length p \<le> length s \<and> drop (length s - length p) s = p)"

text \<open>\<open>s.indexOf(p)\<close>: the first position where \<open>p\<close> occurs, \<open>None\<close> for -1.\<close>

fun indexOf :: "string \<Rightarrow> string \<Rightarrow> nat option" where
  "indexOf [] p = (if p = [] then Some 0 else None)"
| "indexOf (c # cs) p =
     (if startsWith (c # cs) p then Some 0 else map_option Suc (indexOf cs p))"

text \<open>
  An argument that may be missing is a \<open>string option\<close>, \<open>None\<close> for \<open>undefined\<close>.
  \<open>truthy\<close> is the test of \<open>if (origin)\<close>, \<open>set_has\<close> is \<open>Set.prototype.has\<close> on a
  set of strings, and \<open>ToString\<close> is the conversion a regular expression applies to its
  argument.
\<close>

definition truthy :: "string option \<Rightarrow> bool" where
  "truthy v = (case v of None \<Rightarrow> False | Some x \<Rightarrow> x \<noteq> [])"

definition set_has :: "string set \<Rightarrow> string option \<Rightarrow> bool" where
  "set_has S v = (case v of None \<Rightarrow> False | Some x \<Rightarrow> x \<in> S)"

definition ToString :: "string option \<Rightarrow> string" where
  "ToString v = (case v of None \<Rightarrow> ''undefined'' | Some x \<Rightarrow> x)"

text \<open>The class \<open>\w\<close> of a regular expression without flags: \<open>[A-Za-z0-9_]\<close>.\<close>

definition is_word_char :: "char \<Rightarrow> bool" where
  "is_word_char c =
     (c \<in> set (''abcdefghijklmnopqrstuvwxyz'' @ ''ABCDEFGHIJKLMNOPQRSTUVWXYZ'' @ ''0123456789_''))"

text \<open>
  \<open>/\w+\.\w+$/\<close> tried at the first character of \<open>s\<close>. The first \<open>\w+\<close> is greedy and
  takes the whole run of word characters; giving some back cannot help, because the
  character after a shorter run is a word character and not the dot. The second \<open>\w+\<close>
  has to reach the end of the input, which is what \<open>$\<close> asks without the \<open>m\<close> flag.
\<close>

definition domain_at :: "string \<Rightarrow> bool" where
  "domain_at s =
     (takeWhile is_word_char s \<noteq> [] \<and>
      (case dropWhile is_word_char s of
         [] \<Rightarrow> False
       | c # w \<Rightarrow> c = CHR ''.'' \<and> w \<noteq> [] \<and> list_all is_word_char w))"

text \<open>
  \<open>/\w+\.\w+$/.exec(s)\<close>: the start positions are tried from the left; the match, when
  there is one, runs to the end of \<open>s\<close>, so element 0 of the result is a suffix of \<open>s\<close>.
  \<open>None\<close> is the \<open>null\<close> of a failed match.
\<close>

fun domain_exec :: "string \<Rightarrow> string option" where
  "domain_exec [] = None"
| "domain_exec (c # cs) = (if domain_at (c # cs) then Some (c # cs) else domain_exec cs)"

text \<open>The two sets of the class; the field \<open>list\<close> is named \<open>list_exact\<close> here.\<close>

record OriginMatcher =
  wildcards :: "string set"
  list_exact :: "string set"

text \<open>
  The body of the constructor's loop, for one entry of the allowlist:
  \<^verbatim>\<open>
    if (origin.includes('*.')) {
        this.wildcards.add(origin.substring(origin.indexOf('*.') + 2))
        this.list.add(origin.replace('*.', ''))
    } else {
        this.list.add(origin)
    }
  \<close>
  \<open>replace\<close> with a string pattern removes the first occurrence only.
\<close>

definition add_origin :: "string \<Rightarrow> OriginMatcher \<Rightarrow> OriginMatcher" where
  "add_origin origin m =
     (case indexOf origin ''*.'' of
        Some i \<Rightarrow>
          m\<lparr>wildcards := insert (drop (i + 2) origin) (wildcards m),
            list_exact := insert (take i origin @ drop (i + 2) origin) (list_exact m)\<rparr>
      | None \<Rightarrow> m\<lparr>list_exact := insert origin (list_exact m)\<rparr>)"

definition new_OriginMatcher :: "string list \<Rightarrow> OriginMatcher" where
  "new_OriginMatcher allowlist = fold add_origin allowlist \<lparr>wildcards = {}, list_exact = {}\<rparr>"

text \<open>
  \<open>match(origin)\<close> as origin-matcher.js has it:
  \<^verbatim>\<open>
    if (this.list.has(origin)) return true
    if (this.wildcards.has(/\w+\.\w+$/.exec(origin)[0])) return true
    return false
  \<close>
  When the regular expression does not match, \<open>exec\<close> returns \<open>null\<close> and reading its
  element 0 throws a TypeError.
\<close>

definition match :: "OriginMatcher \<Rightarrow> string option \<Rightarrow> js_error + bool" where
  "match m origin =
     (if set_has (list_exact m) origin then Inr True
      else (case domain_exec (ToString origin) of
              None \<Rightarrow> Inl TypeError
            | Some d \<Rightarrow> if d \<in> wildcards m then Inr True else Inr False))"

text \<open>
  The repository holds a second copy of the class (it follows BillingAccount in
  billing-account.js), whose \<open>match\<close> guards both steps:
  \<^verbatim>\<open>
    if (!origin) return false
    if (this.list.has(origin)) return true
    const domainMatch = /\w+\.\w+$/.exec(origin)
    if (domainMatch && this.wildcards.has(domainMatch[0])) return true
    return false
  \<close>
\<close>

definition match_guarded :: "OriginMatcher \<Rightarrow> string option \<Rightarrow> js_error + bool" where
  "match_guarded m origin =
     (if \<not> truthy origin then Inr False
      else if set_has (list_exact m) origin then Inr True
      else (case domain_exec (ToString origin) of
              None \<Rightarrow> Inr False
            | Some d \<Rightarrow> if d \<in> wildcards m then Inr True else Inr False))"

section \<open>The pending-charges ledger\<close>

text \<open>
  \<open>{accountId: {category: [chargesCounter, chargedCredits]}}\<close>. A JavaScript object is an
  association list in the order \<open>Object.entries\<close> enumerates it, with one pair per key:
  \<open>map_of\<close> reads a property (\<open>None\<close> for \<open>undefined\<close>) and \<open>AList.update\<close> assigns one,
  in place when the key exists and at the end when it is new. (Keys that look like array
  indices, which JavaScript enumerates first, are outside the model.) The list holds the
  object's own properties; where the code reads a property by a name its caller chose, the
  names inherited from \<open>Object.prototype\<close> are looked up as well. No key of the ledger
  or of the account table is such a name: \<open>charge\<close> never stores one in the ledger, and
  \<open>onAccountsUpdate\<close> throws before it stores one in the table. The two-element array is
  a pair.
\<close>

type_synonym charges = "(string \<times> (jsval \<times> jsval)) list"

type_synonym ledger = "(string \<times> charges) list"

section \<open>websocket-channel.js: WebSocketChannel\<close>

datatype WebSocketStatus = disconnected | connected

text \<open>
  What the channel asks of the \<open>ws\<close> library, in order. A socket is named by the number
  of the \<open>new WebSocket(...)\<close> call that made it; \<open>Send\<close> carries the \<open>data\<close> of the
  \<open>{type: 'charge', data}\<close> message.
\<close>

datatype transport_op = Open nat | SockClose nat | SockTerminate nat | Send nat ledger

text \<open>
  The fields of the channel that its methods read or write, and the part of its
  environment they act on: \<open>sockets\<close> counts the sockets constructed so far,
  \<open>transport\<close> is the log of calls into the library, and \<open>reconnectTimers\<close> counts the
  callbacks \<open>setTimeout(() => this.connect(), 2000)\<close> that are armed and have not fired.
  The code keeps no handle of these timers. \<open>autoReconnect\<close> has no initialiser; it is
  only ever tested for truth, so its \<open>undefined\<close> is \<open>False\<close>.
\<close>

record WebSocketChannel =
  autoReconnect :: bool
  status :: WebSocketStatus
  ws :: "nat option"
  sockets :: nat
  transport :: "transport_op list"
  reconnectTimers :: nat

definition new_WebSocketChannel :: WebSocketChannel where
  "new_WebSocketChannel =
     \<lparr>autoReconnect = False, status = disconnected, ws = None, sockets = 0, transport = [],
      reconnectTimers = 0\<rparr>"

text \<open>\<open>connect()\<close>: sets autoReconnect, constructs a socket and registers the handlers.\<close>

definition channel_connect :: "WebSocketChannel \<Rightarrow> WebSocketChannel" where
  "channel_connect c =
     c\<lparr>autoReconnect := True, ws := Some (Suc (sockets c)), sockets := Suc (sockets c),
       transport := transport c @ [Open (Suc (sockets c))]\<rparr>"

text \<open>
  \<open>async notify(message) { this.ws.send(JSON.stringify(message)) }\<close>: the promise is
  rejected when \<open>this.ws\<close> is null (a TypeError) or when \<open>send\<close> throws, which the
  library decides (\<open>send_throws\<close>).
\<close>

definition notify :: "bool \<Rightarrow> ledger \<Rightarrow> WebSocketChannel \<Rightarrow> js_error + WebSocketChannel" where
  "notify send_throws data c =
     (case ws c of
        None \<Rightarrow> Inl TypeError
      | Some w \<Rightarrow> if send_throws then Inl Error else Inr (c\<lparr>transport := transport c @ [Send w data]\<rparr>))"

text \<open>\<open>close() { this.autoReconnect = false; this.ws?.close() }\<close>\<close>

definition channel_close :: "WebSocketChannel \<Rightarrow> WebSocketChannel" where
  "channel_close c =
     (case ws c of
        None \<Rightarrow> c\<lparr>autoReconnect := False\<rparr>
      | Some w \<Rightarrow> c\<lparr>autoReconnect := False, transport := transport c @ [SockClose w]\<rparr>)"

text \<open>\<open>changeStatus(newStatus)\<close>; the status-change handler only writes to the console.\<close>

definition changeStatus :: "WebSocketStatus \<Rightarrow> WebSocketChannel \<Rightarrow> WebSocketChannel" where
  "changeStatus newStatus c = (if status c = newStatus then c else c\<lparr>status := newStatus\<rparr>)"

text \<open>\<open>onMessage\<close>, as far as the channel's own state goes: the status becomes connected.\<close>

definition channel_onMessage :: "WebSocketChannel \<Rightarrow> WebSocketChannel" where
  "channel_onMessage c = changeStatus connected c"

text \<open>
  \<open>onClose(errorCode)\<close>:
  \<^verbatim>\<open>
    if (this.ws) { this.ws.terminate() }
    this.ws = null
    if (errorCode === 1008) { ...; this.autoReconnect = false }
    this.changeStatus('disconnected')
    ...
    if (this.autoReconnect) { setTimeout(() => this.connect(), 2000) }
  \<close>
\<close>

definition onClose :: "nat \<Rightarrow> WebSocketChannel \<Rightarrow> WebSocketChannel" where
  "onClose errorCode c =
     (let c1 = (case ws c of None \<Rightarrow> c | Some w \<Rightarrow> c\<lparr>transport := transport c @ [SockTerminate w]\<rparr>);
          c2 = c1\<lparr>ws := None\<rparr>;
          c3 = (if errorCode = 1008 then c2\<lparr>autoReconnect := False\<rparr> else c2);
          c4 = changeStatus disconnected c3
      in if autoReconnect c4 then c4\<lparr>reconnectTimers := Suc (reconnectTimers c4)\<rparr> else c4)"

text \<open>
  \<open>onError(error)\<close>:
  \<^verbatim>\<open>
    this.changeStatus('disconnected')
    this.close()
    setTimeout(() => this.connect(), 2000)
  \<close>
\<close>

definition onError :: "WebSocketChannel \<Rightarrow> WebSocketChannel" where
  "onError c =
     (let c1 = channel_close (changeStatus disconnected c)
      in c1\<lparr>reconnectTimers := Suc (reconnectTimers c1)\<rparr>)"

text \<open>
  What can happen to a channel: a call of \<open>connect()\<close> or \<open>close()\<close> by its owner, an
  event of the socket, or the firing of an armed reconnect timer, whose callback is
  \<open>() => this.connect()\<close>. A timer can fire only when one is armed.
\<close>

datatype channel_event =
  Connect | Close | TransportMessage | TransportClose nat | TransportError | ReconnectTimerFires

fun channel_step :: "channel_event \<Rightarrow> WebSocketChannel \<Rightarrow> WebSocketChannel option" where
  "channel_step Connect c = Some (channel_connect c)"
| "channel_step Close c = Some (channel_close c)"
| "channel_step TransportMessage c = Some (channel_onMessage c)"
| "channel_step (TransportClose code) c = Some (onClose code c)"
| "channel_step TransportError c = Some (onError c)"
| "channel_step ReconnectTimerFires c =
     (if reconnectTimers c = 0 then None
      else Some (channel_connect (c\<lparr>reconnectTimers := reconnectTimers c - 1\<rparr>)))"

fun channel_run :: "channel_event list \<Rightarrow> WebSocketChannel \<Rightarrow> WebSocketChannel option" where
  "channel_run [] c = Some c"
| "channel_run (e # es) c =
     (case channel_step e c of None \<Rightarrow> None | Some c' \<Rightarrow> channel_run es c')"

section \<open>websocket-channel.js: BillingService\<close>

text \<open>The two fields of the request headers that the service reads.\<close>

record RequestHeaders =
  origin :: "string option"
  authorization :: "string option"

text \<open>The first argument of \<open>charge\<close>: an account id (a string) or request headers.\<close>

datatype charge_from = AccountId string | Headers RequestHeaders

text \<open>
  The state of the service. \<open>accounts\<close> has no initialiser and the constructor does not
  set it: it is \<open>undefined\<close> (\<open>None\<close>) until the first accounts-update message.
  \<open>syncTimerHandler\<close> is the handle \<open>setTimeout\<close> returned, \<open>None\<close> for \<open>undefined\<close>.
  \<open>timers\<close> and \<open>timerCount\<close> are the environment of \<open>scheduleSync\<close>: the handles of
  the armed sync timeouts and the number of \<open>setTimeout\<close> calls made, which names the
  next handle (a handle is never 0, so it is truthy).
\<close>

record BillingService =
  pricing :: "string \<Rightarrow> jsval option"
  allowlist :: "string set"
  accounts :: "(string \<times> BillingAccount) list option"
  pendingCharges :: ledger
  wsChannel :: WebSocketChannel
  syncTimerHandler :: "nat option"
  syncInProgress :: bool
  timers :: "nat list"
  timerCount :: nat

text \<open>The constructor, for a sync interval that passes its check.\<close>

definition new_BillingService :: "(string \<Rightarrow> jsval option) \<Rightarrow> string list \<Rightarrow> BillingService" where
  "new_BillingService prices allowed =
     \<lparr>pricing = prices, allowlist = set allowed, accounts = None, pendingCharges = [],
      wsChannel = new_WebSocketChannel, syncTimerHandler = None, syncInProgress = False,
      timers = [], timerCount = 0\<rparr>"

text \<open>
  \<open>toLowerCase\<close> and \<open>replace(/^https?:\/\//, '')\<close>. Origins are host names, so a
  string is a sequence of ASCII characters here; what \<open>toLowerCase\<close> does to other
  letters is outside the model.
\<close>

definition lower_char :: "char \<Rightarrow> char" where
  "lower_char c =
     (if 65 \<le> (of_char c :: nat) \<and> (of_char c :: nat) \<le> 90 then char_of (of_char c + 32 :: nat) else c)"

definition toLowerCase :: "string \<Rightarrow> string" where
  "toLowerCase s = map lower_char s"

definition strip_scheme :: "string \<Rightarrow> string" where
  "strip_scheme s =
     (if startsWith s ''http://'' then drop 7 s
      else if startsWith s ''https://'' then drop 8 s
      else s)"

text \<open>\<open>auth.split(' ')\<close>: the pieces between single spaces; never an empty array.\<close>

fun split_space :: "string \<Rightarrow> string list" where
  "split_space [] = [[]]"
| "split_space (c # cs) =
     (if c = CHR '' '' then [] # split_space cs
      else (case split_space cs of [] \<Rightarrow> [[c]] | p # ps \<Rightarrow> (c # p) # ps))"

text \<open>
  The two predicates handed to \<open>find\<close>:
  \<^verbatim>\<open>
    a => a.origins?.some(ao => ao === origin ||
             ao.startsWith('*.') && origin.endsWith(ao.substring(1)))
    a => a.apiKeys?.includes(apiKey)
  \<close>
  \<open>apiKey\<close> is \<open>undefined\<close> when the header has no second piece.
\<close>

definition origin_of_account :: "string \<Rightarrow> BillingAccount \<Rightarrow> bool" where
  "origin_of_account org a =
     (case origins a of
        None \<Rightarrow> False
      | Some aos \<Rightarrow> list_ex (\<lambda>ao. ao = org \<or> (startsWith ao ''*.'' \<and> endsWith org (drop 1 ao))) aos)"

definition apiKey_of_account :: "string option \<Rightarrow> BillingAccount \<Rightarrow> bool" where
  "apiKey_of_account apiKey a =
     (case apiKeys a of
        None \<Rightarrow> False
      | Some ks \<Rightarrow> (case apiKey of None \<Rightarrow> False | Some k \<Rightarrow> k \<in> set ks))"

text \<open>What \<open>matchAccountFromRequestHeaders\<close> returns: a boolean or an account.\<close>

datatype matched = MatchedBool bool | MatchedAccount BillingAccount

text \<open>
  \<open>matchAccountFromRequestHeaders(requestHeaders)\<close>. \<open>Object.values(this.accounts)\<close> is
  the accounts in the order of the table.
\<close>

definition matchByApiKey :: "RequestHeaders \<Rightarrow> BillingAccount list \<Rightarrow> matched" where
  "matchByApiKey h accs =
     (if truthy (authorization h) then
        (case split_space (ToString (authorization h)) of
           [] \<Rightarrow> MatchedBool False
         | type # rest \<Rightarrow>
             if type = ''Bearer'' then
               (case find (apiKey_of_account (case rest of [] \<Rightarrow> None | k # _ \<Rightarrow> Some k)) accs of
                  Some a \<Rightarrow> MatchedAccount a
                | None \<Rightarrow> MatchedBool False)
             else MatchedBool False)
      else MatchedBool False)"

definition matchAccountFromRequestHeaders :: "RequestHeaders \<Rightarrow> BillingService \<Rightarrow> matched" where
  "matchAccountFromRequestHeaders h s =
     (if truthy (origin h) \<and> set_has (allowlist s) (origin h) then MatchedBool True
      else (case accounts s of
              None \<Rightarrow> MatchedBool False
            | Some table \<Rightarrow>
                (case (if truthy (origin h)
                       then find (origin_of_account (strip_scheme (toLowerCase (ToString (origin h)))))
                              (map snd table)
                       else None) of
                   Some a \<Rightarrow> MatchedAccount a
                 | None \<Rightarrow> matchByApiKey h (map snd table))))"

text \<open>
  What \<open>charge\<close> returns. It is a boolean except on one path: \<open>if (!matched.id) return
  matched\<close> hands back the matched account itself when its id is the empty string.
\<close>

datatype charge_result = Bool bool | Account BillingAccount

text \<open>
  \<open>charge(from, category)\<close>: an exception, or the returned value and the state after the
  call.
  \<^verbatim>\<open>
    if (typeof from !== 'string') {
        const matched = this.matchAccountFromRequestHeaders(from)
        if (!matched.id) return matched
        from = matched.id
    }
    const account = this.accounts[from]
    if (!account) return false
    const chargedCredits = this.pricing[category]
    if (!account.tryCharge(chargedCredits)) return false
    let accountCharges = this.pendingCharges[from]
    if (!accountCharges) { accountCharges = this.pendingCharges[from] = {} }
    let accountCategoryCharges = accountCharges[category]
    if (!accountCategoryCharges) { accountCategoryCharges = accountCharges[category] = [0, 0] }
    accountCategoryCharges[0]++
    accountCategoryCharges[1] += chargedCredits
    return true
  \<close>
  Reading a property of \<open>this.accounts\<close> while it is \<open>undefined\<close> throws a TypeError.
  \<open>this.accounts[from]\<close> for a name inherited from \<open>Object.prototype\<close> is a function,
  which is truthy and has no \<open>tryCharge\<close>: the call throws a TypeError. The account is an
  object shared with the table, so the table holds the charged account afterwards.
\<close>

definition resolve_from :: "charge_from \<Rightarrow> BillingService \<Rightarrow> charge_result + string" where
  "resolve_from from s =
     (case from of
        AccountId i \<Rightarrow> Inr i
      | Headers h \<Rightarrow>
          (case matchAccountFromRequestHeaders h s of
             MatchedBool b \<Rightarrow> Inl (Bool b)
           | MatchedAccount a \<Rightarrow> if account_id a = [] then Inl (Account a) else Inr (account_id a)))"

text \<open>
  \<open>this.pricing[category]\<close>, for a pricing table that is an ordinary object: its own
  property when it has one, the inherited function for a name of \<open>Object.prototype\<close>, and
  \<open>undefined\<close> otherwise.
\<close>

definition price_of :: "BillingService \<Rightarrow> string \<Rightarrow> jsval" where
  "price_of s category =
     (case pricing s category of
        Some p \<Rightarrow> p
      | None \<Rightarrow> if inherited category then Obj else Undefined)"

text \<open>
  The last six lines of \<open>charge\<close>. When the category is a name inherited from
  \<open>Object.prototype\<close>, \<open>accountCharges[category]\<close> is the inherited function, which is
  truthy: no entry is created, and the counter and the credits are written on that
  function, where nothing of the service reads them. (For \<open>__proto__\<close> they are written on
  \<open>Object.prototype\<close> itself, which gives every object the properties \<open>0\<close> and \<open>1\<close>;
  what later calls then read under these two names is not followed here.)
\<close>

definition record_charge :: "string \<Rightarrow> string \<Rightarrow> jsval \<Rightarrow> ledger \<Rightarrow> ledger" where
  "record_charge from category chargedCredits pending =
     (let accountCharges = (case map_of pending from of None \<Rightarrow> [] | Some cs \<Rightarrow> cs)
      in case map_of accountCharges category of
           Some entry \<Rightarrow>
             AList.update from
               (AList.update category (js_inc (fst entry), js_add (snd entry) chargedCredits)
                  accountCharges)
               pending
         | None \<Rightarrow>
             if inherited category then AList.update from accountCharges pending
             else AList.update from
                    (AList.update category (js_inc (Num 0), js_add (Num 0) chargedCredits)
                       accountCharges)
                    pending)"

definition charge ::
  "charge_from \<Rightarrow> string \<Rightarrow> BillingService \<Rightarrow> js_error + (charge_result \<times> BillingService)" where
  "charge from category s =
     (case resolve_from from s of
        Inl r \<Rightarrow> Inr (r, s)
      | Inr i \<Rightarrow>
          (case accounts s of
             None \<Rightarrow> Inl TypeError
           | Some table \<Rightarrow>
               (case map_of table i of
                  None \<Rightarrow> if inherited i then Inl TypeError else Inr (Bool False, s)
                | Some account \<Rightarrow>
                    (case tryCharge (price_of s category) account of
                       (False, _) \<Rightarrow> Inr (Bool False, s)
                     | (True, account') \<Rightarrow>
                         Inr (Bool True,
                              s\<lparr>accounts := Some (AList.update i account' table),
                                pendingCharges :=
                                  record_charge i category (price_of s category) (pendingCharges s)\<rparr>)))))"

text \<open>The state after a call of \<open>charge\<close>, whatever it returned or threw.\<close>

definition after_charge :: "charge_from \<times> string \<Rightarrow> BillingService \<Rightarrow> BillingService" where
  "after_charge call s = (case charge (fst call) (snd call) s of Inl _ \<Rightarrow> s | Inr (_, s') \<Rightarrow> s')"

text \<open>
  \<open>scheduleSync() { this.syncTimerHandler = setTimeout(() => this.syncCharges(), ...) }\<close>
\<close>

definition scheduleSync :: "BillingService \<Rightarrow> BillingService" where
  "scheduleSync s =
     s\<lparr>syncTimerHandler := Some (Suc (timerCount s)),
       timers := timers s @ [Suc (timerCount s)],
       timerCount := Suc (timerCount s)\<rparr>"

text \<open>\<open>connect()\<close> and \<open>terminate()\<close> of the service.\<close>

definition connect :: "BillingService \<Rightarrow> BillingService" where
  "connect s =
     (if status (wsChannel s) = connected then s
      else scheduleSync (s\<lparr>wsChannel := channel_connect (wsChannel s)\<rparr>))"


text \<open>
  The merge of the catch block, inner loop: for every category of the unsent charges of
  one account,
  \<^verbatim>\<open>
    const nc = newCharges[category] || [0, 0]
    newCharges[category] = unsentCharges[category].map((prevValue, i) => prevValue + nc[i])
  \<close>
\<close>

definition merge_category :: "string \<times> (jsval \<times> jsval) \<Rightarrow> charges \<Rightarrow> charges" where
  "merge_category unsent newCharges =
     (let nc = (case map_of newCharges (fst unsent) of None \<Rightarrow> (Num 0, Num 0) | Some e \<Rightarrow> e)
      in AList.update (fst unsent)
           (js_add (fst (snd unsent)) (fst nc), js_add (snd (snd unsent)) (snd nc)) newCharges)"

text \<open>
  Outer loop: for every account of the unsent snapshot,
  \<^verbatim>\<open>
    const newCharges = this.pendingCharges[unsentAccountId] || {}
    for (let category of Object.keys(unsentCharges)) { ... }
  \<close>
  When the current ledger has the account, \<open>newCharges\<close> is the object stored in it and
  the inner loop updates the ledger. When it has not, \<open>newCharges\<close> is a fresh object
  that nothing stores: the inner loop fills it and the ledger stays as it is.
\<close>

definition merge_account :: "string \<times> charges \<Rightarrow> ledger \<Rightarrow> ledger" where
  "merge_account unsent pending =
     (case map_of pending (fst unsent) of
        Some newCharges \<Rightarrow> AList.update (fst unsent) (fold merge_category (snd unsent) newCharges) pending
      | None \<Rightarrow> (let discarded = fold merge_category (snd unsent) [] in pending))"

definition merge_unsent :: "ledger \<Rightarrow> ledger \<Rightarrow> ledger" where
  "merge_unsent data pending = fold merge_account data pending"

text \<open>
  \<^verbatim>\<open>
    for (let [id, charged] of Object.entries(chargedBalances)) {
        const acc = this.accounts[id]
        if (acc) { acc.chargedBalance += charged }
    }
  \<close>
\<close>

definition restore_charged ::
  "string \<times> jsval \<Rightarrow> (string \<times> BillingAccount) list \<Rightarrow> (string \<times> BillingAccount) list" where
  "restore_charged saved table =
     (case map_of table (fst saved) of
        None \<Rightarrow> table
      | Some acc \<Rightarrow>
          AList.update (fst saved) (acc\<lparr>chargedBalance := js_add (chargedBalance acc) (snd saved)\<rparr>) table)"

text \<open>
  \<open>syncCharges\<close> is an async function with one \<open>await\<close>. \<open>syncCharges_tick\<close> is what a
  call does before it returns or suspends; \<open>syncCharges_resume\<close> is its continuation.
  A call that suspends has rotated the ledger out, zeroed every chargedBalance and called
  \<open>notify\<close>; it holds the snapshot \<open>data\<close>, the saved \<open>chargedBalances\<close> and the outcome
  of \<open>notify\<close> (\<open>sent\<close>) until it resumes. Whatever runs in between, calls of \<open>charge\<close>
  for instance, runs on the state it left.
  \<^verbatim>\<open>
    if (!this.syncTimerHandler) return
    if (this.wsChannel.status !== 'connected' || !Object.keys(this.pendingCharges).length
        || !this.accounts)
        return this.scheduleSync()
    if (!this.syncInProgress) {
        this.syncInProgress = true
        let data = this.pendingCharges
        let chargedBalances = {}
        try {
            this.pendingCharges = {}
            for (let [id, account] of Object.entries(this.accounts)) {
                chargedBalances[id] = account.chargedBalance
                account.chargedBalance = 0
            }
            await this.wsChannel.notify({type: 'charge', data})
        } catch (e) { ... merge ... restore ... }
        this.syncInProgress = false
    }
    if (this.syncTimerHandler) this.scheduleSync()
  \<close>
\<close>

datatype sync_call =
  Returned BillingService
  | Suspended BillingService ledger "(string \<times> jsval) list" bool

definition syncCharges_tick :: "bool \<Rightarrow> BillingService \<Rightarrow> sync_call" where
  "syncCharges_tick send_throws s =
     (if syncTimerHandler s = None then Returned s
      else if status (wsChannel s) \<noteq> connected \<or> pendingCharges s = [] \<or> accounts s = None then
        Returned (scheduleSync s)
      else if \<not> syncInProgress s then
        (let data = pendingCharges s;
             table = (case accounts s of None \<Rightarrow> [] | Some t \<Rightarrow> t);
             chargedBalances = map (\<lambda>(i, a). (i, chargedBalance a)) table;
             s1 = s\<lparr>syncInProgress := True, pendingCharges := [],
                    accounts := Some (map (\<lambda>(i, a). (i, a\<lparr>chargedBalance := Num 0\<rparr>)) table)\<rparr>
         in case notify send_throws data (wsChannel s1) of
              Inl _ \<Rightarrow> Suspended s1 data chargedBalances False
            | Inr c \<Rightarrow> Suspended (s1\<lparr>wsChannel := c\<rparr>) data chargedBalances True)
      else Returned (if syncTimerHandler s \<noteq> None then scheduleSync s else s))"

definition syncCharges_resume ::
  "ledger \<Rightarrow> (string \<times> jsval) list \<Rightarrow> bool \<Rightarrow> BillingService \<Rightarrow> BillingService" where
  "syncCharges_resume data chargedBalances sent s =
     (let s1 = (if sent then s
                else s\<lparr>pendingCharges := merge_unsent data (pendingCharges s),
                       accounts := map_option (fold restore_charged chargedBalances) (accounts s)\<rparr>);
          s2 = s1\<lparr>syncInProgress := False\<rparr>
      in if syncTimerHandler s2 \<noteq> None then scheduleSync s2 else s2)"

text \<open>
  The armed sync timeout \<open>t\<close> fires: it is no longer armed, and its callback calls
  \<open>syncCharges\<close>. A timeout that is not armed (it was cleared, or has fired) cannot fire.
\<close>

definition sync_timer_fires :: "nat \<Rightarrow> bool \<Rightarrow> BillingService \<Rightarrow> sync_call option" where
  "sync_timer_fires t send_throws s =
     (if t \<in> set (timers s)
      then Some (syncCharges_tick send_throws (s\<lparr>timers := removeAll t (timers s)\<rparr>))
      else None)"

text \<open>
  One tick of the timer \<open>t\<close> together with the calls \<open>during\<close> of \<open>charge\<close> that arrive
  before the suspended call resumes.
\<close>

definition sync_attempt ::
  "nat \<Rightarrow> bool \<Rightarrow> (charge_from \<times> string) list \<Rightarrow> BillingService \<Rightarrow> BillingService option" where
  "sync_attempt t send_throws during s =
     (case sync_timer_fires t send_throws s of
        None \<Rightarrow> None
      | Some (Returned s') \<Rightarrow> Some (fold after_charge during s')
      | Some (Suspended s' data chargedBalances sent) \<Rightarrow>
          Some (syncCharges_resume data chargedBalances sent (fold after_charge during s')))"

text \<open>
  A service in operation, for the scenarios below: constructed with the price 5 for the
  category \<open>cat\<close>, connected, and holding the account \<open>acc1\<close> with balance 100 that the
  first message of the server (an accounts-update) brought.
\<close>

definition loaded_service :: BillingService where
  "loaded_service =
     (connect (new_BillingService [''cat'' \<mapsto> Num 5] []))
       \<lparr>wsChannel := channel_onMessage (channel_connect new_WebSocketChannel),
        accounts := Some [(''acc1'', (new_BillingAccount ''acc1'')\<lparr>balance := Num 100\<rparr>)]\<rparr>"






section \<open>Properties of the arithmetic\<close>

text \<open>The upward search returns an exponent whose power of two is below the argument.\<close>

lemma exp_up_spec: "2 powi e \<le> a \<Longrightarrow> e \<le> exp_up a e \<and> 2 powi (exp_up a e) \<le> a"
proof (induction a e rule: exp_up.induct)
  case (1 a e)
  show ?case
  proof (cases "1024 \<le> e \<or> a < 2 powi (e + 1)")
    case True
    then show ?thesis using "1.prems" by (simp add: exp_up.simps)
  next
    case False
    then have "2 powi (e + 1) \<le> a" by simp
    from "1.IH" [OF False this] False show ?thesis
      by (simp add: exp_up.simps [of a e])
  qed
qed

lemma round_half_even_of_int: "round_half_even (of_int m) = m"
  by (simp add: round_half_even_def)

lemma powi_le_53: "(2::real) powi e \<le> 2 ^ 53 \<Longrightarrow> e \<le> 53"
  using power_int_le_imp_le_exp [of "2::real" e 53] by simp

lemma scaled_int:
  assumes "e \<le> 52"
  shows "of_int n / (2::real) powi (e - 52) = of_int (n * 2 ^ nat (52 - e))"
proof -
  have "(2::real) powi (e - 52) = inverse (2 powi (52 - e))"
    using power_int_minus [of "2::real" "52 - e"] by simp
  also have "\<dots> = inverse (2 ^ nat (52 - e))"
    using assms by (simp add: power_int_nonneg_exp)
  finally show ?thesis by (simp add: divide_inverse)
qed

lemma big_bound: "(2::real) ^ 53 < 2 powi 1024"
  using power_int_strict_increasing [of 53 1024 "2::real"] by simp

text \<open>An integer of magnitude at most \<open>2 ^ 53\<close> is a double: rounding leaves it alone.\<close>

lemma round64_of_int:
  assumes "\<bar>n\<bar> \<le> 2 ^ 53"
  shows "round64 (of_int n) = Num (of_int n)"
proof (cases "n = 0")
  case True
  then show ?thesis by (simp add: round64_def)
next
  case False
  define x :: real where "x = of_int n"
  have x1: "1 \<le> \<bar>x\<bar>" using False by (simp add: x_def flip: of_int_abs)
  have x53: "\<bar>x\<bar> \<le> 2 ^ 53"
  proof -
    have "\<bar>x\<bar> = of_int \<bar>n\<bar>" by (simp add: x_def)
    also have "\<dots> \<le> of_int (2 ^ 53)" using assms by (rule of_int_le_iff [THEN iffD2])
    finally show ?thesis by simp
  qed
  define E where "E = exponent x"
  have E: "E = exp_up \<bar>x\<bar> 0" using x1 by (simp add: E_def exponent_def)
  have "(2::real) powi 0 \<le> \<bar>x\<bar>" using x1 by simp
  from exp_up_spec [OF this] have E0: "0 \<le> E" and Ex: "2 powi E \<le> \<bar>x\<bar>"
    by (simp_all add: E)
  from Ex x53 have "(2::real) powi E \<le> 2 ^ 53" by simp
  then have E53: "E \<le> 53" by (rule powi_le_53)
  have p0: "(2::real) powi (E - 52) \<noteq> 0" by simp
  have ex: "\<exists>m::int. x / 2 powi (E - 52) = of_int m"
  proof (cases "E \<le> 52")
    case True
    from scaled_int [OF this, of n] show ?thesis unfolding x_def by blast
  next
    case False
    with E53 have e: "E = 53" by simp
    with Ex x53 have "\<bar>x\<bar> = 2 ^ 53" by simp
    then have "\<bar>n\<bar> = 2 ^ 53"
      by (simp add: x_def flip: of_int_abs)
    then have "n = 2 ^ 53 \<or> n = - (2 ^ 53)" by linarith
    then show ?thesis by (auto simp add: x_def e intro: exI [of _ "2 ^ 52"] exI [of _ "- (2 ^ 52)"])
  qed
  then obtain m :: int where m: "x / 2 powi (E - 52) = of_int m" ..
  then have r: "of_int (round_half_even (x / 2 powi (E - 52))) * 2 powi (E - 52) = x"
    using p0 by (simp add: round_half_even_of_int field_simps)
  have lo: "\<not> 2 powi 1024 \<le> x" "\<not> x \<le> - (2 powi 1024)"
    using x53 big_bound by linarith+
  have "x \<noteq> 0" using x1 by auto
  then show ?thesis
    using r lo unfolding round64_def Let_def E_def [symmetric] x_def [symmetric] by simp
qed

lemma round64_numeral [simp]:
  "numeral k \<le> (9007199254740992::real) \<Longrightarrow> round64 (numeral k) = Num (numeral k)"
  using round64_of_int [of "numeral k"] by simp

lemma round64_neg_numeral [simp]:
  "numeral k \<le> (9007199254740992::real) \<Longrightarrow> round64 (- numeral k) = Num (- numeral k)"
  using round64_of_int [of "- numeral k"] by simp

lemma round64_0 [simp]: "round64 0 = Num 0"
  by (simp add: round64_def)

lemma round64_1 [simp]: "round64 1 = Num 1"
  using round64_of_int [of 1] by simp

text \<open>The operators on finite Numbers, and what a \<open>NaN\<close> operand does.\<close>

lemma js_add_Num [simp]: "js_add (Num a) (Num b) = round64 (a + b)"
  by (simp add: js_add_def)

lemma js_sub_Num [simp]: "js_sub (Num a) (Num b) = round64 (a - b)"
  by (simp add: js_sub_def)

lemma js_lt_Num [simp]: "js_lt (Num a) (Num b) = (a < b)"
  by (simp add: js_lt_def)

lemma js_inc_Num [simp]: "js_inc (Num a) = round64 (a + 1)"
  by (simp add: js_inc_def)

lemma js_lt_irrefl: "\<not> js_lt v v"
  by (cases v) (simp_all add: js_lt_def)





text \<open>Sums and differences of integers are exact while they stay within \<open>2 ^ 53\<close>.\<close>

lemma js_add_int:
  "\<bar>m + n\<bar> \<le> 2 ^ 53 \<Longrightarrow> js_add (Num (of_int m)) (Num (of_int n)) = Num (of_int (m + n))"
  using round64_of_int [of "m + n"] by simp

lemma js_sub_int:
  "\<bar>m - n\<bar> \<le> 2 ^ 53 \<Longrightarrow> js_sub (Num (of_int m)) (Num (of_int n)) = Num (of_int (m - n))"
  using round64_of_int [of "m - n"] by simp


lemmas round_defs = round64_def exponent_def exp_up.simps exp_down.simps round_half_even_def Let_def

section \<open>Properties of BillingAccount\<close>

lemma tryCharge_int:
  assumes "balance a = Num (of_int b)" and "chargedBalance a = Num (of_int c)"
    and "\<bar>b - c\<bar> \<le> 2 ^ 53" and "\<bar>c + n\<bar> \<le> 2 ^ 53"
  shows "currentBalance a = Num (of_int (b - c))"
    and "tryCharge (Num (of_int n)) a =
           (if b - c < n then (False, a) else (True, a\<lparr>chargedBalance := Num (of_int (c + n))\<rparr>))"
proof -
  show cur: "currentBalance a = Num (of_int (b - c))"
    using assms(1,2) js_sub_int [OF assms(3)] by (simp add: currentBalance_def)
  have "js_add (chargedBalance a) (Num (of_int n)) = Num (of_int (c + n))"
    using assms(2) js_add_int [OF assms(4)] by simp
  then show "tryCharge (Num (of_int n)) a =
           (if b - c < n then (False, a) else (True, a\<lparr>chargedBalance := Num (of_int (c + n))\<rparr>))"
    by (simp add: tryCharge_def cur)
qed




text \<open>
  C2, as amended. For every account and every amount: when the computed available balance,
  the double \<open>balance - chargedBalance\<close>, is strictly less than the amount, \<open>tryCharge\<close>
  returns false and leaves the account as it was; otherwise it returns true and
  chargedBalance becomes the double \<open>chargedBalance + amount\<close>, balance being untouched.
  Charging exactly the computed available balance succeeds, and charging anything strictly
  larger fails with the account unchanged. When balance, chargedBalance and the amount are
  integers whose difference and sum stay within \<open>2 ^ 53\<close>, the difference and the sum are
  exact: chargedBalance grows by exactly the amount.
\<close>

theorem C2_tryCharge_gate:
  "(js_lt (currentBalance a) x \<longrightarrow> tryCharge x a = (False, a))
   \<and> (\<not> js_lt (currentBalance a) x \<longrightarrow>
        tryCharge x a = (True, a\<lparr>chargedBalance := js_add (chargedBalance a) x\<rparr>))
   \<and> fst (tryCharge (currentBalance a) a)
   \<and> (\<forall>b c n. balance a = Num (of_int b) \<and> chargedBalance a = Num (of_int c)
          \<and> \<bar>b - c\<bar> \<le> 2 ^ 53 \<and> \<bar>c + n\<bar> \<le> 2 ^ 53 \<longrightarrow>
        currentBalance a = Num (of_int (b - c))
        \<and> (b - c < n \<longrightarrow> tryCharge (Num (of_int n)) a = (False, a))
        \<and> (n \<le> b - c \<longrightarrow>
             tryCharge (Num (of_int n)) a = (True, a\<lparr>chargedBalance := Num (of_int (c + n))\<rparr>)))"
proof (intro conjI allI impI)
  show "fst (tryCharge (currentBalance a) a)"
    by (simp add: tryCharge_def js_lt_irrefl)
next
  fix b c n :: int
  assume h: "balance a = Num (of_int b) \<and> chargedBalance a = Num (of_int c)
          \<and> \<bar>b - c\<bar> \<le> 2 ^ 53 \<and> \<bar>c + n\<bar> \<le> 2 ^ 53"
  then have ba: "balance a = Num (of_int b)" and ch: "chargedBalance a = Num (of_int c)"
    and d: "\<bar>b - c\<bar> \<le> 2 ^ 53" and e: "\<bar>c + n\<bar> \<le> 2 ^ 53" by simp_all
  show "currentBalance a = Num (of_int (b - c))" by (rule tryCharge_int(1) [OF ba ch d e])
  { assume "b - c < n"
    then show "tryCharge (Num (of_int n)) a = (False, a)"
      using tryCharge_int(2) [OF ba ch d e] by simp }
  { assume "n \<le> b - c"
    then show "tryCharge (Num (of_int n)) a = (True, a\<lparr>chargedBalance := Num (of_int (c + n))\<rparr>)"
      using tryCharge_int(2) [OF ba ch d e] by simp }
qed (simp_all add: tryCharge_def)

theorem C2_tryCharge_gate_witness:
  "tryCharge (Num 6) ((new_BillingAccount ''a'')\<lparr>balance := Num 5\<rparr>)
     = (False, (new_BillingAccount ''a'')\<lparr>balance := Num 5\<rparr>)
   \<and> tryCharge (Num 5) ((new_BillingAccount ''a'')\<lparr>balance := Num 5\<rparr>)
     = (True, (new_BillingAccount ''a'')\<lparr>balance := Num 5, chargedBalance := Num 5\<rparr>)"
  using C2_tryCharge_gate [of "(new_BillingAccount ''a'')\<lparr>balance := Num 5\<rparr>" "Num 6"]
    C2_tryCharge_gate [of "(new_BillingAccount ''a'')\<lparr>balance := Num 5\<rparr>" "Num 5"]
  by (simp add: new_BillingAccount_def currentBalance_def)

text \<open>
  C2 as stated fails, because the sum and the difference are rounded. With balance
  \<open>2 ^ 53 + 2\<close> and chargedBalance \<open>2 ^ 53\<close>, \<open>tryCharge(1)\<close> returns true and
  chargedBalance is still \<open>2 ^ 53\<close>: it has not grown by the amount. With balance 1.7 and
  chargedBalance 0.6 (the doubles these literals denote), the exact difference is less
  than the double 1.1, yet \<open>tryCharge(1.1)\<close> returns true, the computed difference being
  1.1.
\<close>

theorem C2_increment_not_exact:
  "tryCharge (Num 1)
       ((new_BillingAccount ''a'')\<lparr>balance := Num 9007199254740994,
                                    chargedBalance := Num 9007199254740992\<rparr>)
     = (True, (new_BillingAccount ''a'')\<lparr>balance := Num 9007199254740994,
                                         chargedBalance := Num 9007199254740992\<rparr>)
   \<and> round64 (17 / 10) = Num (7656119366529843 / 2 ^ 52)
   \<and> round64 (6 / 10) = Num (5404319552844595 / 2 ^ 53)
   \<and> round64 (11 / 10) = Num (4953959590107546 / 2 ^ 52)
   \<and> (7656119366529843 / 2 ^ 52 - 5404319552844595 / 2 ^ 53 :: real) < 4953959590107546 / 2 ^ 52
   \<and> fst (tryCharge (round64 (11 / 10))
            ((new_BillingAccount ''a'')\<lparr>balance := round64 (17 / 10),
                                         chargedBalance := round64 (6 / 10)\<rparr>))"
  by (simp add: tryCharge_def currentBalance_def new_BillingAccount_def round_defs)




section \<open>Properties of OriginMatcher\<close>

text \<open>
  The executable \<open>domain_at\<close> is the regular expression \<open>\w+\.\w+$\<close> read
  declaratively: a non-empty run of word characters, a dot, and a non-empty run of word
  characters up to the end.
\<close>

lemma domain_at_iff:
  "domain_at s \<longleftrightarrow>
     (\<exists>w1 w2. s = w1 @ CHR ''.'' # w2 \<and> w1 \<noteq> [] \<and> w2 \<noteq> []
        \<and> list_all is_word_char w1 \<and> list_all is_word_char w2)"
proof
  assume d: "domain_at s"
  then obtain w where w: "dropWhile is_word_char s = CHR ''.'' # w" "w \<noteq> []"
      "list_all is_word_char w"
    by (auto simp add: domain_at_def split: list.splits)
  have "s = takeWhile is_word_char s @ CHR ''.'' # w"
    using w(1) takeWhile_dropWhile_id [of is_word_char s] by simp
  moreover have "takeWhile is_word_char s \<noteq> []" using d by (simp add: domain_at_def)
  moreover have "list_all is_word_char (takeWhile is_word_char s)"
    by (simp add: list_all_iff) (meson set_takeWhileD)
  ultimately show "\<exists>w1 w2. s = w1 @ CHR ''.'' # w2 \<and> w1 \<noteq> [] \<and> w2 \<noteq> []
        \<and> list_all is_word_char w1 \<and> list_all is_word_char w2"
    using w(2,3) by blast
next
  assume "\<exists>w1 w2. s = w1 @ CHR ''.'' # w2 \<and> w1 \<noteq> [] \<and> w2 \<noteq> []
        \<and> list_all is_word_char w1 \<and> list_all is_word_char w2"
  then obtain w1 w2 where s: "s = w1 @ CHR ''.'' # w2" and n: "w1 \<noteq> []" "w2 \<noteq> []"
    and a: "list_all is_word_char w1" "list_all is_word_char w2" by blast
  have dot: "\<not> is_word_char CHR ''.''" by (simp add: is_word_char_def)
  have t: "takeWhile is_word_char s = w1"
    unfolding s using a(1) dot by (simp add: list_all_iff takeWhile_tail)
  have dr: "dropWhile is_word_char s = CHR ''.'' # w2"
    unfolding s using a(1) dot by (simp add: list_all_iff dropWhile_append2)
  show "domain_at s" using t dr n a by (simp add: domain_at_def)
qed

lemma example_matcher:
  "new_OriginMatcher [''*.example.com'']
     = \<lparr>wildcards = {''example.com''}, list_exact = {''example.com''}\<rparr>"
  by (simp add: new_OriginMatcher_def add_origin_def startsWith_def)

lemmas match_defs = match_def match_guarded_def set_has_def truthy_def ToString_def domain_at_def
  is_word_char_def

text \<open>The guarded copy of \<open>match\<close> never throws, and answers false to an empty or missing
  origin.\<close>

lemma match_guarded_total:
  "match_guarded m org = Inr False \<or> match_guarded m org = Inr True"
  by (simp add: match_guarded_def split: option.splits)

lemma match_guarded_empty:
  "match_guarded m (Some []) = Inr False \<and> match_guarded m None = Inr False"
  by (simp add: match_guarded_def truthy_def)

text \<open>
  C4. The matcher built from the allowlist \<open>["*.example.com"]\<close> answers true to
  \<open>api.example.com\<close> and to the root \<open>example.com\<close>, and it answers true to
  \<open>evil-example.com\<close> as well, in both copies of the class: \<open>\w\<close> has no hyphen, so
  the regular expression extracts \<open>example.com\<close> from it, not its last two labels. The
  wildcard test of \<open>matchAccountFromRequestHeaders\<close>, which compares the suffix
  \<open>.example.com\<close>, accepts the subdomain and rejects \<open>evil-example.com\<close>.
\<close>

theorem C4_hyphenated_origin_matches:
  "match (new_OriginMatcher [''*.example.com'']) (Some ''api.example.com'') = Inr True
   \<and> match (new_OriginMatcher [''*.example.com'']) (Some ''example.com'') = Inr True
   \<and> match (new_OriginMatcher [''*.example.com'']) (Some ''evil-example.com'') = Inr True
   \<and> match_guarded (new_OriginMatcher [''*.example.com'']) (Some ''evil-example.com'') = Inr True
   \<and> domain_exec ''evil-example.com'' = Some ''example.com''
   \<and> origin_of_account ''api.example.com''
        ((new_BillingAccount ''a'')\<lparr>origins := Some [''*.example.com'']\<rparr>) = True
   \<and> origin_of_account ''evil-example.com''
        ((new_BillingAccount ''a'')\<lparr>origins := Some [''*.example.com'']\<rparr>) = False"
  by (simp add: example_matcher match_defs origin_of_account_def new_BillingAccount_def
      startsWith_def endsWith_def)

text \<open>
  C5. \<open>match\<close> of origin-matcher.js throws a TypeError on the empty origin, on a missing
  origin and on an origin without a dot such as \<open>localhost\<close>, whenever the origin is not
  in the exact list: the regular expression does not match and element 0 of \<open>null\<close> is
  read.
\<close>

theorem C5_match_throws:
  "match (new_OriginMatcher [''*.example.com'']) (Some []) = Inl TypeError
   \<and> match (new_OriginMatcher [''*.example.com'']) None = Inl TypeError
   \<and> match (new_OriginMatcher [''*.example.com'']) (Some ''localhost'') = Inl TypeError"
  by (simp add: example_matcher match_defs)

section \<open>Properties of WebSocketChannel\<close>

text \<open>
  C6. A channel connects, its socket closes with code 1006 while autoReconnect is true (so
  a reconnect is armed), and then \<open>close()\<close> is called: autoReconnect is false and no
  socket is open, but the timer is still armed. When it fires, \<open>connect()\<close> runs: a second
  socket is opened and autoReconnect is true again.
\<close>

theorem C6_pending_reconnect_fires_after_close:
  "channel_run [Connect, TransportClose 1006, Close] new_WebSocketChannel
     = Some \<lparr>autoReconnect = False, status = disconnected, ws = None, sockets = 1,
              transport = [Open 1, SockTerminate 1], reconnectTimers = 1\<rparr>
   \<and> channel_run [Connect, TransportClose 1006, Close, ReconnectTimerFires] new_WebSocketChannel
     = Some \<lparr>autoReconnect = True, status = disconnected, ws = Some 2, sockets = 2,
              transport = [Open 1, SockTerminate 1, Open 2], reconnectTimers = 0\<rparr>"
  by (simp add: new_WebSocketChannel_def channel_connect_def channel_close_def onClose_def
      changeStatus_def)

section \<open>Properties of BillingService\<close>

lemmas service_defs = loaded_service_def connect_def new_BillingService_def new_WebSocketChannel_def
  channel_connect_def channel_onMessage_def changeStatus_def scheduleSync_def new_BillingAccount_def

lemma loaded_service_eq:
  "loaded_service =
     \<lparr>pricing = [''cat'' \<mapsto> Num 5], allowlist = {},
      accounts = Some [(''acc1'', \<lparr>account_id = ''acc1'', apiKeys = None, origins = None,
                                 balance = Num 100, chargedBalance = Num 0\<rparr>)],
      pendingCharges = [],
      wsChannel = \<lparr>autoReconnect = True, status = connected, ws = Some 1, sockets = 1,
                   transport = [Open 1], reconnectTimers = 0\<rparr>,
      syncTimerHandler = Some 1, syncInProgress = False, timers = [1], timerCount = 1\<rparr>"
  by (simp add: service_defs)

lemmas charge_defs = after_charge_def charge_def resolve_from_def price_of_def tryCharge_def
  currentBalance_def record_charge_def inherited_def Object_prototype_def

lemmas sync_defs = sync_attempt_def sync_timer_fires_def syncCharges_tick_def syncCharges_resume_def
  notify_def merge_unsent_def merge_account_def merge_category_def restore_charged_def
  scheduleSync_def Let_def

text \<open>
  C7. On a service that has not received its accounts yet (\<open>accounts\<close> is undefined),
  \<open>charge\<close> with an account id throws a TypeError; it does not return false.
\<close>

theorem C7_charge_throws_before_accounts:
  "accounts (new_BillingService [''cat'' \<mapsto> Num 5] []) = None
   \<and> charge (AccountId ''acc1'') ''cat'' (new_BillingService [''cat'' \<mapsto> Num 5] [])
     = Inl TypeError"
  by (simp add: charge_defs new_BillingService_def)

text \<open>
  C1. One charge of category \<open>cat\<close> (price 5) puts \<open>acc1: cat: [1, 5]\<close> in the ledger.
  A sync attempt whose send fails, with no charge arriving before it resumes, leaves the
  ledger empty: the unsent entry is gone, while chargedBalance is restored to 5. When a
  charge of the same account does arrive during the failed attempt, the entries are
  added: \<open>[2, 10]\<close>.
\<close>

theorem C1_failed_sync_drops_unsent_charges:
  "pendingCharges (after_charge (AccountId ''acc1'', ''cat'') loaded_service)
     = [(''acc1'', [(''cat'', (Num 1, Num 5))])]
   \<and> map_option pendingCharges
       (sync_attempt 1 True [] (after_charge (AccountId ''acc1'', ''cat'') loaded_service))
     = Some []
   \<and> map_option accounts
       (sync_attempt 1 True [] (after_charge (AccountId ''acc1'', ''cat'') loaded_service))
     = Some (Some [(''acc1'', (new_BillingAccount ''acc1'')\<lparr>balance := Num 100, chargedBalance := Num 5\<rparr>)])
   \<and> map_option pendingCharges
       (sync_attempt 1 True [(AccountId ''acc1'', ''cat'')]
          (after_charge (AccountId ''acc1'', ''cat'') loaded_service))
     = Some [(''acc1'', [(''cat'', (Num 2, Num 10))])]"
  by (simp add: loaded_service_eq charge_defs sync_defs new_BillingAccount_def)




























lemma after_charge_pricing: "pricing (after_charge call s) = pricing s"
  by (auto simp add: after_charge_def charge_def split: sum.splits option.splits prod.splits bool.splits)


lemma fold_after_charge_pricing: "pricing (fold after_charge calls s) = pricing s"
  by (induction calls arbitrary: s) (simp_all add: after_charge_pricing)






end
